theory Spec2Isabelle
  imports Main
begin

section \<open>Python values used by statusdb.py\<close>

text \<open>
  The exceptions the modelled code can raise. A function that can raise returns
  \<open>error + 'a\<close>, with \<open>Inl\<close> for the exception.
\<close>

datatype error = NameError | AttributeError | TypeError | KeyError | UnboundLocalError

text \<open>
  A Python dict is an association list without duplicate keys; the order of the list is
  the iteration order of the dict (unspecified in Python 2, fixed here).
  \<open>dict_set\<close> is \<open>d[k] = v\<close>, \<open>dict_update\<close> is \<open>d.update(..)\<close>, \<open>dict_eq\<close> is \<open>==\<close> on
  two dicts, which ignores the order.
\<close>

type_synonym 'v dict = "(string \<times> 'v) list"

fun dict_set :: "('k \<times> 'v) list \<Rightarrow> 'k \<Rightarrow> 'v \<Rightarrow> ('k \<times> 'v) list" where
  "dict_set [] k v = [(k, v)]"
| "dict_set ((k', v') # d) k v = (if k' = k then (k, v) # d else (k', v') # dict_set d k v)"

fun dict_update :: "('k \<times> 'v) list \<Rightarrow> ('k \<times> 'v) list \<Rightarrow> ('k \<times> 'v) list" where
  "dict_update d [] = d"
| "dict_update d ((k, v) # es) = dict_update (dict_set d k v) es"

definition dict_eq :: "('k \<times> 'v) list \<Rightarrow> ('k \<times> 'v) list \<Rightarrow> bool" where
  "dict_eq a b = list_all (\<lambda>k. map_of a k = map_of b k) (map fst a @ map fst b)"

text \<open>\<open>str(x)\<close> for a value that is a string or \<open>None\<close>.\<close>

definition py_str :: "string option \<Rightarrow> string" where
  "py_str x = (case x of None \<Rightarrow> ''None'' | Some s \<Rightarrow> s)"

text \<open>\<open>s.startswith(p)\<close>, \<open>s.rstrip(cs)\<close> and \<open>s.replace(old, new)\<close>.\<close>

definition startswith :: "string \<Rightarrow> string \<Rightarrow> bool" where
  "startswith s p = (take (length p) s = p)"

definition rstrip :: "string \<Rightarrow> string \<Rightarrow> string" where
  "rstrip s cs = rev (dropWhile (\<lambda>c. c \<in> set cs) (rev s))"

function py_replace :: "string \<Rightarrow> string \<Rightarrow> string \<Rightarrow> string" where
  "py_replace s old new =
     (if old = [] then new @ concat (map (\<lambda>c. c # new) s)
      else if s = [] then []
      else if take (length old) s = old then new @ py_replace (drop (length old) s) old new
      else hd s # py_replace (tl s) old new)"
  by pat_completeness auto
termination
  by (relation "measure (\<lambda>(s, old, new). length s)") auto

declare py_replace.simps [simp del]

section \<open>Regular expressions\<close>

text \<open>
  The fragment of Python's \<open>re\<close> syntax that statusdb.py uses: literals, character classes
  (given by the list of their characters), \<open>+\<close> on a class, \<open>?\<close>, concatenation, \<open>|\<close>,
  numbered groups and \<open>$\<close>. \<open>rmatch r s g\<close> lists the ways \<open>r\<close> matches a prefix of \<open>s\<close>
  in the order a backtracking matcher tries them (greedy first): each is the unread rest
  of \<open>s\<close> with the groups captured so far. \<open>re_search\<close> is \<open>re.search\<close>: the first way at
  the leftmost position that has one, or \<open>None\<close>.
\<close>

datatype regex =
    Lit string
  | Cls "char list"
  | Plus "char list"
  | Opt regex
  | Seq regex regex
  | Alt regex regex
  | Group nat regex
  | Eol

type_synonym groups = "(nat \<times> string) list"

fun plus_rests :: "char list \<Rightarrow> string \<Rightarrow> string list" where
  "plus_rests cs [] = []"
| "plus_rests cs (c # s) = (if c \<in> set cs then plus_rests cs s @ [s] else [])"

fun rmatch :: "regex \<Rightarrow> string \<Rightarrow> groups \<Rightarrow> (string \<times> groups) list" where
  "rmatch (Lit l) s g = (if take (length l) s = l then [(drop (length l) s, g)] else [])"
| "rmatch (Cls cs) s g = (case s of [] \<Rightarrow> [] | c # t \<Rightarrow> if c \<in> set cs then [(t, g)] else [])"
| "rmatch (Plus cs) s g = map (\<lambda>t. (t, g)) (plus_rests cs s)"
| "rmatch (Opt r) s g = rmatch r s g @ [(s, g)]"
| "rmatch (Seq r1 r2) s g = concat (map (\<lambda>tg. rmatch r2 (fst tg) (snd tg)) (rmatch r1 s g))"
| "rmatch (Alt r1 r2) s g = rmatch r1 s g @ rmatch r2 s g"
| "rmatch (Group n r) s g =
     map (\<lambda>tg. (fst tg, (n, take (length s - length (fst tg)) s) # snd tg)) (rmatch r s g)"
| "rmatch Eol s g = (if s = [] \<or> s = [CHR 0x0A] then [(s, g)] else [])"

fun re_search :: "regex \<Rightarrow> string \<Rightarrow> groups option" where
  "re_search r [] = (case rmatch r [] [] of [] \<Rightarrow> None | tg # _ \<Rightarrow> Some (snd tg))"
| "re_search r (c # s) =
     (case rmatch r (c # s) [] of [] \<Rightarrow> re_search r s | tg # _ \<Rightarrow> Some (snd tg))"

text \<open>\<open>m.group(n)\<close>: \<open>None\<close> when the group took no part in the match.\<close>

definition group :: "groups \<Rightarrow> nat \<Rightarrow> string option" where
  "group m n = map_of m n"

definition digits :: "char list" where
  "digits = ''0123456789''"

definition uppers :: "char list" where
  "uppers = ''ABCDEFGHIJKLMNOPQRSTUVWXYZ''"

definition lowers :: "char list" where
  "lowers = ''abcdefghijklmnopqrstuvwxyz''"

text \<open>\<^verbatim>\<open>(\d+)_?([A-Z])?_\<close>\<close>

definition re_sample_id :: regex where
  "re_sample_id =
     Seq (Group 1 (Plus digits)) (Seq (Opt (Lit ''_'')) (Seq (Opt (Group 2 (Cls uppers))) (Lit ''_'')))"

text \<open>\<^verbatim>\<open>(_index[0-9]+)\<close>\<close>

definition re_index :: regex where
  "re_index = Group 1 (Seq (Lit ''_index'') (Plus digits))"

text \<open>\<^verbatim>\<open>([A-Za-z0-9\_]+)(\_index[0-9]+)?\<close>\<close>

definition re_name_index :: regex where
  "re_name_index =
     Seq (Group 1 (Plus (uppers @ lowers @ digits @ ''_'')))
         (Opt (Group 2 (Seq (Lit ''_index'') (Plus digits))))"

text \<open>\<^verbatim>\<open>_[ACGT]+$|_NoIndex$\<close>\<close>

definition re_srm_suffix :: regex where
  "re_srm_suffix = Alt (Seq (Lit ''_'') (Seq (Plus ''ACGT'') Eol)) (Seq (Lit ''_NoIndex'') Eol)"

section \<open>The identifier matcher\<close>

text \<open>
  \<^verbatim>\<open>_match_project_name_to_barcode_name(project_sample_name, sample_run_name)\<close>, lines 39-62.
  \<open>sample_run_name\<close> is \<open>None\<close> when the caller passes Python's \<open>None\<close>, as
  \<^verbatim>\<open>map_name_to_srm\<close> does for a document without a barcode name; \<open>re.search\<close> raises
  \<open>TypeError\<close> on it, \<open>str\<close> turns it into \<^verbatim>\<open>"None"\<close>. Calling \<open>.group\<close> on the \<open>None\<close> that
  \<open>re.search\<close> returns when nothing matches raises \<open>AttributeError\<close>.
\<close>

definition match_project_name_to_barcode_name :: "string \<Rightarrow> string option \<Rightarrow> error + bool" where
  "match_project_name_to_barcode_name project_sample_name sample_run_name =
     (if \<not> startswith project_sample_name ''P'' then
        (case sample_run_name of
           None \<Rightarrow> Inl TypeError
         | Some run \<Rightarrow>
             (case re_search re_sample_id run of
                None \<Rightarrow> Inl AttributeError
              | Some sample_id \<Rightarrow>
                  if py_str (group sample_id 1) = project_sample_name then Inr True
                  else
                    let index = (case re_search re_index run of
                                   None \<Rightarrow> [] | Some m \<Rightarrow> py_str (group m 1))
                    in (case re_search re_name_index (py_replace run index []) of
                          None \<Rightarrow> Inl AttributeError
                        | Some sample_id' \<Rightarrow>
                            if py_str (group sample_id' 1) = project_sample_name then Inr True
                            else Inr False)))
      else if startswith (py_str sample_run_name) project_sample_name then Inr True
      else if startswith (py_str sample_run_name) (rstrip project_sample_name ''F'') then Inr True
      else if startswith (py_str sample_run_name) (rstrip project_sample_name ''B'') then Inr True
      else Inr False)"

section \<open>The run-metrics index\<close>

text \<open>
  A row of a CouchDB view has a key, the id of the document that emitted it, and a value
  (a string or JSON \<open>null\<close>). A sample run metrics document is read through \<^verbatim>\<open>s["name"]\<close>,
  \<^verbatim>\<open>s["_id"]\<close> and \<^verbatim>\<open>s.get("barcode_name", None)\<close>.
  \<^verbatim>\<open>SampleRunMetricsConnection.__init__\<close> keeps the views \<^verbatim>\<open>names/name_fc\<close> and
  \<^verbatim>\<open>names/name_proj\<close> as dicts from the row key to the row; \<open>srm_db\<close> is the database,
  \<^verbatim>\<open>db.get(x)\<close> being \<open>map_of (srm_db con) x\<close>. Debug logging of this connection is left out.
\<close>

record row =
  row_key :: string
  row_id :: string
  row_value :: "string option"

record srm_doc =
  srm_name :: string
  srm_id :: string
  barcode_name :: "string option"

record sample_run_metrics_connection =
  name_fc_view :: "row dict"
  name_proj_view :: "row dict"
  srm_db :: "srm_doc dict"

text \<open>The truth value of a string or \<open>None\<close>, and of a dict or \<open>None\<close>.\<close>

definition truthy_str :: "string option \<Rightarrow> bool" where
  "truthy_str x = (case x of None \<Rightarrow> False | Some s \<Rightarrow> s \<noteq> [])"

definition truthy_dict :: "('k \<times> 'v) list option \<Rightarrow> bool" where
  "truthy_dict x = (case x of None \<Rightarrow> False | Some d \<Rightarrow> d \<noteq> [])"

text \<open>
  \<^verbatim>\<open>get_sample_ids(self, fc_id=None, sample_prj=None)\<close>, lines 113-130. \<^verbatim>\<open>list(set(..))\<close> has
  no specified order; the model keeps the order of first occurrence.
\<close>

definition get_sample_ids ::
  "sample_run_metrics_connection \<Rightarrow> string option \<Rightarrow> string option \<Rightarrow> string list" where
  "get_sample_ids con fc_id sample_prj =
     (let fc_sample_ids =
            (if truthy_str fc_id
             then map (\<lambda>kr. row_id (snd kr)) (filter (\<lambda>kr. row_value (snd kr) = fc_id) (name_fc_view con))
             else []);
          prj_sample_ids =
            (if truthy_str sample_prj
             then map (\<lambda>kr. row_id (snd kr)) (filter (\<lambda>kr. row_value (snd kr) = sample_prj) (name_proj_view con))
             else [])
      in if length fc_sample_ids > 0 \<and> length prj_sample_ids > 0
         then remdups (filter (\<lambda>x. x \<in> set prj_sample_ids) fc_sample_ids)
         else remdups (fc_sample_ids @ prj_sample_ids))"

text \<open>\<^verbatim>\<open>get_samples\<close>, lines 132-142: \<^verbatim>\<open>db.get(x)\<close> is \<open>None\<close> for an id without document.\<close>

definition get_samples ::
  "sample_run_metrics_connection \<Rightarrow> string option \<Rightarrow> string option \<Rightarrow> srm_doc option list" where
  "get_samples con fc_id sample_prj = map (map_of (srm_db con)) (get_sample_ids con fc_id sample_prj)"

section \<open>The sample reconciler\<close>

text \<open>
  A project sample is read through \<^verbatim>\<open>v.get('library_prep', None)\<close> and
  \<^verbatim>\<open>v.get('sample_run_metrics', None)\<close>; a library prep through
  \<^verbatim>\<open>library_preps[kk]['sample_run_metrics']\<close>, a \<open>KeyError\<close> when the key is missing. A project
  document is read through \<^verbatim>\<open>project.get('samples', None)\<close>.
\<close>

record lib_prep =
  prep_sample_run_metrics :: "string dict option"

record project_sample =
  library_prep :: "lib_prep dict option"
  sample_run_metrics :: "string dict option"

record project =
  doc_samples :: "project_sample dict option"

text \<open>
  \<^verbatim>\<open>ProjectSummaryConnection\<close>: its view \<^verbatim>\<open>project/project_id\<close> as a dict from project id to
  document id, its database, and the \<^verbatim>\<open>SampleRunMetricsConnection\<close> that
  \<^verbatim>\<open>map_name_to_srm\<close> opens with the same credentials.
\<close>

record project_summary_connection =
  project_name_view :: "string dict"
  project_db :: "project dict"
  s_con :: sample_run_metrics_connection

text \<open>What \<^verbatim>\<open>self.log\<close> of the project connection receives, one constructor per call site.\<close>

datatype log_entry =
    Debug_retrieving_entry "string option" string
  | Warn_no_field "string option" string
  | Info_using_barcode_map string
  | Debug_consistent string
  | Warn_inconsistent string "string dict option" "string dict"

text \<open>
  \<^verbatim>\<open>ProjectSummaryConnection.get_entry(self, name, field=None)\<close>, lines 192-208, as
  \<^verbatim>\<open>map_name_to_srm\<close> calls it: without \<open>field\<close>. The result comes with the log it wrote.
\<close>

definition get_entry :: "project_summary_connection \<Rightarrow> string \<Rightarrow> project option \<times> log_entry list" where
  "get_entry con name =
     (let lg = [Debug_retrieving_entry None name]
      in case map_of (project_name_view con) name of
           None \<Rightarrow> (None, lg @ [Warn_no_field None name])
         | Some i \<Rightarrow> (map_of (project_db con) i, lg))"

text \<open>\<^verbatim>\<open>_get_sample_run_metrics(self, v)\<close>, lines 322-327.\<close>

fun flatten_library_preps :: "lib_prep dict \<Rightarrow> string dict \<Rightarrow> error + string dict" where
  "flatten_library_preps [] acc = Inr acc"
| "flatten_library_preps ((kk, p) # ps) acc =
     (case prep_sample_run_metrics p of
        None \<Rightarrow> Inl KeyError
      | Some m \<Rightarrow> flatten_library_preps ps (dict_update acc m))"

definition get_sample_run_metrics :: "project_sample \<Rightarrow> error + string dict option" where
  "get_sample_run_metrics v =
     (if truthy_dict (library_prep v) then
        (case library_prep v of
           None \<Rightarrow> Inr None
         | Some library_preps \<Rightarrow>
             (case flatten_library_preps library_preps [] of
                Inl e \<Rightarrow> Inl e
              | Inr d \<Rightarrow> Inr (Some d)))
      else Inr (sample_run_metrics v))"

text \<open>\<^verbatim>\<open>_prune_ps_map(ps_map)\<close>, lines 70-79.\<close>

fun prune_loop :: "string dict \<Rightarrow> string dict \<Rightarrow> string dict" where
  "prune_loop [] ret = ret"
| "prune_loop ((k, v) # items) ret =
     (if re_search re_srm_suffix k \<noteq> None then prune_loop items (dict_set ret k v)
      else prune_loop items ret)"

definition prune_ps_map :: "string dict option \<Rightarrow> string dict option" where
  "prune_ps_map ps_map =
     (if \<not> truthy_dict ps_map then None
      else case ps_map of None \<Rightarrow> None | Some d \<Rightarrow> Some (prune_loop d []))"

text \<open>
  The dict comprehension of line 313:
  \<^verbatim>\<open>{s["name"]:s["_id"] for s in srm_samples if _match_project_name_to_barcode_name(k, s.get("barcode_name", None))}\<close>.
  An element of \<open>srm_samples\<close> that is \<open>None\<close> has no \<open>get\<close>.
\<close>

fun barcode_map :: "string \<Rightarrow> srm_doc option list \<Rightarrow> string dict \<Rightarrow> error + string dict" where
  "barcode_map k [] acc = Inr acc"
| "barcode_map k (s # ss) acc =
     (case s of
        None \<Rightarrow> Inl AttributeError
      | Some d \<Rightarrow>
          (case match_project_name_to_barcode_name k (barcode_name d) of
             Inl e \<Rightarrow> Inl e
           | Inr b \<Rightarrow> if b then barcode_map k ss (dict_set acc (srm_name d) (srm_id d))
                      else barcode_map k ss acc))"

text \<open>
  The local variables of \<^verbatim>\<open>map_name_to_srm\<close> that the loop of lines 303-319 assigns.
  \<open>ps_map\<close> and \<open>bc_map\<close> are \<open>None\<close> until their first assignment; reading them before
  raises \<open>UnboundLocalError\<close>.
\<close>

record loop_state =
  sample_map :: "string dict option dict"
  use_ps_map :: bool
  use_bc_map :: bool
  ps_map :: "string dict option option"
  bc_map :: "string dict option"
  log :: "log_entry list"

text \<open>\<^verbatim>\<open>sample_map[k]\<close>.\<close>

definition dict_item :: "('k \<times> 'v) list \<Rightarrow> 'k \<Rightarrow> error + 'v" where
  "dict_item d k = (case map_of d k of None \<Rightarrow> Inl KeyError | Some v \<Rightarrow> Inr v)"

text \<open>\<^verbatim>\<open>ps_map == bc_map\<close>, where \<open>ps_map\<close> may be \<open>None\<close>.\<close>

definition maps_equal :: "string dict option \<Rightarrow> string dict \<Rightarrow> bool" where
  "maps_equal pm bm = (case pm of None \<Rightarrow> False | Some d \<Rightarrow> dict_eq d bm)"

text \<open>Lines 308-310, 311-314 and 315-319 of the loop body.\<close>

definition use_project_summary_map :: "string \<Rightarrow> project_sample \<Rightarrow> loop_state \<Rightarrow> error + loop_state" where
  "use_project_summary_map k v st =
     (if use_ps_map st then
        (case get_sample_run_metrics v of
           Inl e \<Rightarrow> Inl e
         | Inr pm \<Rightarrow>
             Inr (st\<lparr>ps_map := Some pm, sample_map := dict_set (sample_map st) k (prune_ps_map pm)\<rparr>))
      else Inr st)"

definition use_barcode_map :: "string \<Rightarrow> srm_doc option list \<Rightarrow> loop_state \<Rightarrow> error + loop_state" where
  "use_barcode_map k srm_samples st =
     (case dict_item (sample_map st) k of
        Inl e \<Rightarrow> Inl e
      | Inr cur \<Rightarrow>
          if use_bc_map st \<or> \<not> truthy_dict cur then
            (let lg = (if \<not> truthy_dict cur then log st @ [Info_using_barcode_map k] else log st)
             in case barcode_map k srm_samples [] of
                  Inl e \<Rightarrow> Inl e
                | Inr bm \<Rightarrow>
                    Inr (st\<lparr>bc_map := Some bm, sample_map := dict_set (sample_map st) k (Some bm),
                            log := lg\<rparr>))
          else Inr st)"

definition check_maps :: "bool \<Rightarrow> string \<Rightarrow> loop_state \<Rightarrow> error + loop_state" where
  "check_maps check_consistency k st =
     (if check_consistency then
        (case ps_map st of
           None \<Rightarrow> Inl UnboundLocalError
         | Some pm \<Rightarrow>
             (case bc_map st of
                None \<Rightarrow> Inl UnboundLocalError
              | Some bm \<Rightarrow>
                  if maps_equal pm bm then Inr (st\<lparr>log := log st @ [Debug_consistent k]\<rparr>)
                  else Inr (st\<lparr>log := log st @ [Warn_inconsistent k pm bm]\<rparr>)))
      else Inr st)"

text \<open>One round of the loop, lines 304-319, and the loop.\<close>

definition loop_body ::
  "bool \<Rightarrow> srm_doc option list \<Rightarrow> string \<Rightarrow> project_sample \<Rightarrow> loop_state \<Rightarrow> error + loop_state" where
  "loop_body check_consistency srm_samples k v st =
     (let st1 = st\<lparr>sample_map := dict_set (sample_map st) k None\<rparr>;
          st2 = (if check_consistency then st1\<lparr>use_ps_map := True, use_bc_map := True\<rparr> else st1)
      in case use_project_summary_map k v st2 of
           Inl e \<Rightarrow> Inl e
         | Inr st3 \<Rightarrow>
             (case use_barcode_map k srm_samples st3 of
                Inl e \<Rightarrow> Inl e
              | Inr st4 \<Rightarrow> check_maps check_consistency k st4))"

fun samples_loop ::
  "bool \<Rightarrow> srm_doc option list \<Rightarrow> project_sample dict \<Rightarrow> loop_state \<Rightarrow> error + loop_state" where
  "samples_loop check_consistency srm_samples [] st = Inr st"
| "samples_loop check_consistency srm_samples ((k, v) # items) st =
     (case loop_body check_consistency srm_samples k v st of
        Inl e \<Rightarrow> Inl e
      | Inr st' \<Rightarrow> samples_loop check_consistency srm_samples items st')"

text \<open>
  \<^verbatim>\<open>map_name_to_srm(self, project_id, fc_id=None, use_ps_map=True, use_bc_map=False, check_consistency=False)\<close>,
  lines 284-320. The result is \<open>None\<close> or the sample map, with the log written.
\<close>

definition map_name_to_srm ::
  "project_summary_connection \<Rightarrow> string \<Rightarrow> string option \<Rightarrow> bool \<Rightarrow> bool \<Rightarrow> bool
     \<Rightarrow> error + (string dict option dict option \<times> log_entry list)" where
  "map_name_to_srm con project_id fc_id use_ps use_bc check_consistency =
     (case get_entry con project_id of
        (None, lg) \<Rightarrow> Inr (None, lg)
      | (Some project, lg) \<Rightarrow>
          (case doc_samples project of
             None \<Rightarrow> Inr (None, lg)
           | Some project_samples \<Rightarrow>
               (let srm_samples = get_samples (s_con con) fc_id (Some project_id)
                in case samples_loop check_consistency srm_samples project_samples
                          \<lparr>sample_map = [], use_ps_map = use_ps, use_bc_map = use_bc,
                           ps_map = None, bc_map = None, log = lg\<rparr> of
                     Inl e \<Rightarrow> Inl e
                   | Inr st \<Rightarrow> Inr (Some (sample_map st), log st))))"

text \<open>
  \<^verbatim>\<open>map_srm_to_name(self, project_id, include_all=True, **args)\<close>, lines 266-282. An entry
  \<^verbatim>\<open>{"sample":k, "id":y}\<close> is the pair of \<open>k\<close> and \<open>y\<close>, \<open>y\<close> being \<open>None\<close> or an id.
  \<^verbatim>\<open>samples.items()\<close> raises \<open>AttributeError\<close> when \<open>samples\<close> is \<open>None\<close>.
\<close>

type_synonym srm_entry = "string \<times> string option"

fun srm_to_name_loop :: "bool \<Rightarrow> string dict option dict \<Rightarrow> srm_entry dict \<Rightarrow> srm_entry dict" where
  "srm_to_name_loop include_all [] srm_to_name = srm_to_name"
| "srm_to_name_loop include_all ((k, v) # items) srm_to_name =
     (if \<not> truthy_dict v then
        (if \<not> include_all then srm_to_name_loop include_all items srm_to_name
         else srm_to_name_loop include_all items
                (dict_update srm_to_name [(''NOSRM_'' @ k, (k, None))]))
      else srm_to_name_loop include_all items
             (dict_update srm_to_name
                (map (\<lambda>xy. (fst xy, (k, Some (snd xy)))) (case v of None \<Rightarrow> [] | Some d \<Rightarrow> d))))"

definition map_srm_to_name ::
  "project_summary_connection \<Rightarrow> string \<Rightarrow> bool \<Rightarrow> string option \<Rightarrow> bool \<Rightarrow> bool \<Rightarrow> bool
     \<Rightarrow> error + (srm_entry dict \<times> log_entry list)" where
  "map_srm_to_name con project_id include_all fc_id use_ps use_bc check_consistency =
     (case map_name_to_srm con project_id fc_id use_ps use_bc check_consistency of
        Inl e \<Rightarrow> Inl e
      | Inr (None, lg) \<Rightarrow> Inl AttributeError
      | Inr (Some samples, lg) \<Rightarrow> Inr (srm_to_name_loop include_all samples [], lg))"

section \<open>The upsert resolver\<close>

text \<open>
  A field of a document is \<open>None\<close>, a string, or any other value, compared by \<open>==\<close>. A
  database gives the rows of a view by the view's name, and its documents by id. The rows
  of \<^verbatim>\<open>names/id_to_name\<close> have the document's name as value.
\<close>

datatype 'v pyval = PNone | PStr string | PVal 'v

type_synonym 'v document = "'v pyval dict"

record 'v view_row =
  view_key :: string
  view_id :: string
  view_value :: "'v pyval"

record 'v couch_db =
  db_view :: "string \<Rightarrow> 'v view_row list"
  db_docs :: "'v document dict"

text \<open>\<^verbatim>\<open>a.get(k, None)\<close>.\<close>

definition dict_get :: "('k \<times> 'v pyval) list \<Rightarrow> 'k \<Rightarrow> 'v pyval" where
  "dict_get a k = (case map_of a k of None \<Rightarrow> PNone | Some v \<Rightarrow> v)"

text \<open>The inner function \<^verbatim>\<open>equal(a, b)\<close>, lines 449-453.\<close>

definition volatile_fields :: "string list" where
  "volatile_fields = [''_id'', ''_rev'', ''creation_time'', ''modification_time'']"

definition equal :: "'v document \<Rightarrow> 'v document \<Rightarrow> bool" where
  "equal a b =
     (let a_keys = filter (\<lambda>x. x \<notin> set volatile_fields) (map fst a);
          b_keys = filter (\<lambda>x. x \<notin> set volatile_fields) (map fst b);
          keys = remdups (a_keys @ b_keys)
      in dict_eq (map (\<lambda>k. (k, dict_get a k)) keys) (map (\<lambda>k. (k, dict_get b k)) keys))"

text \<open>
  Lines 455-471, for a given value of the name \<^verbatim>\<open>view_name\<close>: the result is the pair of
  the document to save (or \<open>None\<close>) and the row found for the name (or \<open>None\<close>).
  \<^verbatim>\<open>obj["name"]\<close> raises \<open>KeyError\<close> when the key is missing.
\<close>

definition update_fn_lookup ::
  "'v couch_db \<Rightarrow> 'v document \<Rightarrow> string \<Rightarrow> string
     \<Rightarrow> error + ('v document option \<times> 'v view_row option)" where
  "update_fn_lookup db obj view_name t_utc =
     (let view = db_view db view_name;
          d_view = dict_update [] (map (\<lambda>k. (view_value k, k)) view)
      in case dict_item obj ''name'' of
           Inl e \<Rightarrow> Inl e
         | Inr name \<Rightarrow>
             (let dbid = map_of d_view name;
                  dbobj = (case dbid of None \<Rightarrow> None | Some r \<Rightarrow> map_of (db_docs db) (view_id r))
              in case dbobj of
                   None \<Rightarrow> Inr (Some (dict_set obj ''creation_time'' (PStr t_utc)), dbid)
                 | Some dbobj' \<Rightarrow>
                     if equal obj dbobj' then Inr (None, dbid)
                     else
                       (let obj1 = dict_set obj ''creation_time'' (dict_get dbobj' ''creation_time'');
                            obj2 = dict_set obj1 ''modification_time'' (PStr t_utc);
                            obj3 = dict_set obj2 ''_rev'' (dict_get dbobj' ''_rev'');
                            obj4 = dict_set obj3 ''_id'' (dict_get dbobj' ''_id'')
                        in Inr (Some obj4, dbid))))"

text \<open>
  The names a statement in the body of \<^verbatim>\<open>update_fn\<close> can read: its parameters and local
  variables, then the names bound at the top level of statusdb.py by its imports,
  assignments, \<^verbatim>\<open>def\<close>s and \<^verbatim>\<open>class\<close>es. (Python looks in the builtins last; they have no
  \<^verbatim>\<open>view_name\<close>.) A name is bound to a string or to some other object.
\<close>

datatype binding = Str string | Obj

definition update_fn_locals :: "string \<Rightarrow> (string \<times> binding) list" where
  "update_fn_locals viewname =
     [(''db'', Obj), (''obj'', Obj), (''viewname'', Str viewname), (''t_utc'', Obj), (''equal'', Obj)]"

definition module_globals :: "(string \<times> binding) list" where
  "module_globals =
     [(''re'', Obj), (''izip'', Obj), (''Couch'', Obj), (''utc_time'', Obj), (''uuid4'', Obj),
      (''VIEWS'', Obj), (''calc_avg_qv'', Obj), (''_match_project_name_to_barcode_name'', Obj),
      (''sample_map_fn_id'', Obj), (''_prune_ps_map'', Obj),
      (''SampleRunMetricsConnection'', Obj), (''FlowcellRunMetricsConnection'', Obj),
      (''ProjectSummaryConnection'', Obj), (''status_document'', Obj), (''project_summary'', Obj),
      (''flowcell_run_metrics'', Obj), (''sample_run_metrics'', Obj), (''update_fn'', Obj)]"

definition read_name :: "(string \<times> binding) list \<Rightarrow> string \<Rightarrow> error + binding" where
  "read_name scope n = (case map_of scope n of None \<Rightarrow> Inl NameError | Some b \<Rightarrow> Inr b)"

text \<open>
  \<^verbatim>\<open>update_fn(db, obj, viewname = "names/id_to_name")\<close>, lines 440-471. \<open>t_utc\<close> is what
  \<^verbatim>\<open>utc_time()\<close> returns. Line 455 reads the name \<^verbatim>\<open>view_name\<close>; the parameter is
  \<^verbatim>\<open>viewname\<close>.
\<close>

definition update_fn ::
  "'v couch_db \<Rightarrow> 'v document \<Rightarrow> string \<Rightarrow> string
     \<Rightarrow> error + ('v document option \<times> 'v view_row option)" where
  "update_fn db obj viewname t_utc =
     (case read_name (update_fn_locals viewname @ module_globals) ''view_name'' of
        Inl e \<Rightarrow> Inl e
      | Inr (Str view_name) \<Rightarrow> update_fn_lookup db obj view_name t_utc
      | Inr Obj \<Rightarrow> Inl TypeError)"

section \<open>The specification's reading of the prefix rule\<close>

text \<open>
  The specification's words for a name that starts with \<^verbatim>\<open>P\<close>: the run identifier starts
  with the name, or with the name after stripping one trailing character out of
  \<^verbatim>\<open>F, B, C, D, E\<close>. This is the specification's rule, to be compared with the code's.
\<close>

definition spec_strip_one :: "string \<Rightarrow> char \<Rightarrow> string" where
  "spec_strip_one s c = (if s \<noteq> [] \<and> last s = c then butlast s else s)"

definition spec_matches_P :: "string \<Rightarrow> string \<Rightarrow> bool" where
  "spec_matches_P project_sample_name run_identifier =
     (startswith run_identifier project_sample_name
      \<or> (\<exists>c \<in> set ''FBCDE''. startswith run_identifier (spec_strip_one project_sample_name c)))"

section \<open>Example data\<close>

text \<open>
  One sample run on flowcell \<^verbatim>\<open>FC1\<close> for project \<^verbatim>\<open>P1\<close>, with barcode name \<^verbatim>\<open>P1_1_x\<close>.
\<close>

definition example_s_con :: sample_run_metrics_connection where
  "example_s_con =
     \<lparr>name_fc_view = [(''s1'', \<lparr>row_key = ''s1'', row_id = ''id1'', row_value = Some ''FC1''\<rparr>)],
      name_proj_view = [(''s1'', \<lparr>row_key = ''s1'', row_id = ''id1'', row_value = Some ''P1''\<rparr>)],
      srm_db = [(''id1'', \<lparr>srm_name = ''s1'', srm_id = ''id1'', barcode_name = Some ''P1_1_x''\<rparr>)]\<rparr>"

text \<open>
  A stored document named \<^verbatim>\<open>s1\<close>, a candidate with the same content and one with another
  lane.
\<close>

definition example_stored :: "nat document" where
  "example_stored =
     [(''_id'', PStr ''id1''), (''_rev'', PStr ''1-a''), (''name'', PStr ''s1''),
      (''creation_time'', PStr ''t0''), (''lane'', PVal 1)]"

definition example_db :: "nat couch_db" where
  "example_db =
     \<lparr>db_view = (\<lambda>n. if n = ''names/id_to_name''
                     then [\<lparr>view_key = ''id1'', view_id = ''id1'', view_value = PStr ''s1''\<rparr>]
                     else []),
      db_docs = [(''id1'', example_stored)]\<rparr>"

definition example_same :: "nat document" where
  "example_same =
     [(''_id'', PStr ''zz''), (''name'', PStr ''s1''), (''creation_time'', PStr ''t5''),
      (''lane'', PVal 1)]"

definition example_changed :: "nat document" where
  "example_changed =
     [(''_id'', PStr ''zz''), (''name'', PStr ''s1''), (''creation_time'', PStr ''t5''),
      (''lane'', PVal 2)]"

text \<open>
  Two projects. \<^verbatim>\<open>P1\<close> declares \<^verbatim>\<open>P1_1\<close> with a curated map, and \<^verbatim>\<open>P1_1F\<close> and
  \<^verbatim>\<open>NoCoverage1\<close> without; \<^verbatim>\<open>P2\<close> declares \<^verbatim>\<open>A\<close> without a curated map and \<^verbatim>\<open>B\<close> with
  the curated run identifier \<^verbatim>\<open>NOSRM_A\<close>.
\<close>

definition example_con :: project_summary_connection where
  "example_con =
     \<lparr>project_name_view = [(''P1'', ''pid1''), (''P2'', ''pid2'')],
      project_db =
        [(''pid1'',
          \<lparr>doc_samples = Some
             [(''P1_1'', \<lparr>library_prep = None,
                          sample_run_metrics = Some [(''1_d_FC_ACGT'', ''idA'')]\<rparr>),
              (''P1_1F'', \<lparr>library_prep = None, sample_run_metrics = None\<rparr>),
              (''NoCoverage1'', \<lparr>library_prep = None, sample_run_metrics = None\<rparr>)]\<rparr>),
         (''pid2'',
          \<lparr>doc_samples = Some
             [(''A'', \<lparr>library_prep = None, sample_run_metrics = None\<rparr>),
              (''B'', \<lparr>library_prep = None,
                       sample_run_metrics = Some [(''NOSRM_A'', ''id9'')]\<rparr>)]\<rparr>)],
      s_con = example_s_con\<rparr>"

text \<open>
  A project \<^verbatim>\<open>P3\<close> that declares \<^verbatim>\<open>NoCoverage1\<close>, with one sample run whose barcode name
  \<^verbatim>\<open>Sample1\<close> has no digits followed by an underscore.
\<close>

definition example_con_sample1 :: project_summary_connection where
  "example_con_sample1 =
     \<lparr>project_name_view = [(''P3'', ''pid3'')],
      project_db =
        [(''pid3'',
          \<lparr>doc_samples = Some
             [(''NoCoverage1'', \<lparr>library_prep = None, sample_run_metrics = None\<rparr>)]\<rparr>)],
      s_con =
        \<lparr>name_fc_view = [(''s3'', \<lparr>row_key = ''s3'', row_id = ''id3'', row_value = Some ''FC3''\<rparr>)],
         name_proj_view = [(''s3'', \<lparr>row_key = ''s3'', row_id = ''id3'', row_value = Some ''P3''\<rparr>)],
         srm_db = [(''id3'', \<lparr>srm_name = ''s3'', srm_id = ''id3'',
                               barcode_name = Some ''Sample1''\<rparr>)]\<rparr>\<rparr>"

section \<open>Well-formed sample maps\<close>

text \<open>
  A sample map as \<^verbatim>\<open>map_name_to_srm\<close> builds it is a dict of dicts: no key occurs twice,
  in the map and in each of its values.
\<close>

definition sample_map_ok :: "string dict option dict \<Rightarrow> bool" where
  "sample_map_ok sm =
     (distinct (map fst sm) \<and> (\<forall>kv \<in> set sm. \<forall>d. snd kv = Some d \<longrightarrow> distinct (map fst d)))"

section \<open>Dicts\<close>

lemma map_of_dict_set: "map_of (dict_set d k v) = (map_of d)(k \<mapsto> v)"
  by (induction d k v rule: dict_set.induct) auto

lemma keys_dict_set: "fst ` set (dict_set d k v) = insert k (fst ` set d)"
  by (induction d k v rule: dict_set.induct) auto

lemma distinct_dict_set: "distinct (map fst d) \<Longrightarrow> distinct (map fst (dict_set d k v))"
  by (induction d k v rule: dict_set.induct) (auto simp: keys_dict_set)

lemma set_dict_set: "set (dict_set d k v) \<subseteq> insert (k, v) (set d)"
  by (induction d k v rule: dict_set.induct) auto

lemma distinct_dict_update: "distinct (map fst d) \<Longrightarrow> distinct (map fst (dict_update d es))"
  by (induction d es rule: dict_update.induct) (auto simp: distinct_dict_set)

lemma map_of_dict_update_other:
  "x \<notin> fst ` set es \<Longrightarrow> map_of (dict_update d es) x = map_of d x"
  by (induction d es rule: dict_update.induct) (auto simp: map_of_dict_set)

lemma map_of_dict_update_entry:
  "distinct (map fst es) \<Longrightarrow> map_of es x = Some v \<Longrightarrow> map_of (dict_update d es) x = Some v"
proof (induction d es rule: dict_update.induct)
  case (1 d)
  then show ?case by simp
next
  case (2 d k w es)
  show ?case
  proof (cases "k = x")
    case True
    with 2 have "w = v" and "x \<notin> fst ` set es" by auto
    then show ?thesis
      using True by (simp add: map_of_dict_update_other map_of_dict_set)
  next
    case False
    with 2 show ?thesis by simp
  qed
qed

section \<open>The run-metrics index: results\<close>

lemma get_sample_ids_flowcell_only:
  "set (get_sample_ids con fc_id None)
   = (if truthy_str fc_id
      then {row_id r |k r. (k, r) \<in> set (name_fc_view con) \<and> row_value r = fc_id} else {})"
  by (auto simp: get_sample_ids_def truthy_str_def image_iff)

lemma get_sample_ids_project_only:
  "set (get_sample_ids con None sample_prj)
   = (if truthy_str sample_prj
      then {row_id r |k r. (k, r) \<in> set (name_proj_view con) \<and> row_value r = sample_prj} else {})"
  by (auto simp: get_sample_ids_def truthy_str_def image_iff)

lemma get_sample_ids_both:
  "set (get_sample_ids con fc_id sample_prj)
   = (if set (get_sample_ids con fc_id None) \<noteq> {} \<and> set (get_sample_ids con None sample_prj) \<noteq> {}
      then set (get_sample_ids con fc_id None) \<inter> set (get_sample_ids con None sample_prj)
      else set (get_sample_ids con fc_id None) \<union> set (get_sample_ids con None sample_prj))"
proof -
  let ?F = "if truthy_str fc_id
            then map (\<lambda>kr. row_id (snd kr)) (filter (\<lambda>kr. row_value (snd kr) = fc_id) (name_fc_view con))
            else []"
  let ?P = "if truthy_str sample_prj
            then map (\<lambda>kr. row_id (snd kr)) (filter (\<lambda>kr. row_value (snd kr) = sample_prj) (name_proj_view con))
            else []"
  have f: "set (get_sample_ids con fc_id None) = set ?F"
    by (simp add: get_sample_ids_def truthy_str_def)
  have p: "set (get_sample_ids con None sample_prj) = set ?P"
    by (simp add: get_sample_ids_def truthy_str_def)
  have b: "set (get_sample_ids con fc_id sample_prj)
           = (if ?F \<noteq> [] \<and> ?P \<noteq> [] then set ?F \<inter> set ?P else set ?F \<union> set ?P)"
    unfolding get_sample_ids_def Let_def by (simp only: length_greater_0_conv set_remdups set_filter set_append split: if_split) blast
  show ?thesis
    unfolding f p b by (simp only: set_empty)
qed

text \<open>
  C3. With both filters given, \<^verbatim>\<open>get_sample_ids\<close> does not return the intersection of
  the candidate sets when one filter matches nothing: line 125 takes the empty list of a
  filter that matches nothing for a filter that is absent, and line 128 returns the
  union. With the flowcell \<^verbatim>\<open>FC1\<close> and the project \<^verbatim>\<open>P2\<close>, which has no sample run, the
  result is the sample run of \<^verbatim>\<open>FC1\<close>, which belongs to \<^verbatim>\<open>P1\<close>; the project filter alone
  gives nothing, so adding the flowcell filter enlarges the result.
\<close>

theorem get_sample_ids_not_intersection:
  "set (get_sample_ids example_s_con (Some ''FC1'') (Some ''P2'')) = {''id1''}
   \<and> set (get_sample_ids example_s_con (Some ''FC1'') None) = {''id1''}
   \<and> set (get_sample_ids example_s_con None (Some ''P2'')) = {}"
  by code_simp

text \<open>
  What lines 122-128 compute, for every connection and pair of filters: with both
  candidate lists non-empty the intersection, otherwise the union; the candidates of a
  filter are the ids of the rows of its view whose value is the filter, and a filter
  that is \<open>None\<close> or the empty string has none. With neither filter the result is
  empty.
\<close>

theorem get_sample_ids_filters:
  "(set (get_sample_ids con fc_id None) \<noteq> {} \<and> set (get_sample_ids con None sample_prj) \<noteq> {}
      \<longrightarrow> set (get_sample_ids con fc_id sample_prj)
            = set (get_sample_ids con fc_id None) \<inter> set (get_sample_ids con None sample_prj))
   \<and> (set (get_sample_ids con fc_id None) = {} \<or> set (get_sample_ids con None sample_prj) = {}
      \<longrightarrow> set (get_sample_ids con fc_id sample_prj)
            = set (get_sample_ids con fc_id None) \<union> set (get_sample_ids con None sample_prj))
   \<and> set (get_sample_ids con fc_id None)
       = (if truthy_str fc_id
          then {row_id r |k r. (k, r) \<in> set (name_fc_view con) \<and> row_value r = fc_id} else {})
   \<and> set (get_sample_ids con None sample_prj)
       = (if truthy_str sample_prj
          then {row_id r |k r. (k, r) \<in> set (name_proj_view con) \<and> row_value r = sample_prj} else {})
   \<and> get_sample_ids con None None = []"
proof -
  note both = get_sample_ids_both [of con fc_id sample_prj]
  have inter: "set (get_sample_ids con fc_id None) \<noteq> {} \<and> set (get_sample_ids con None sample_prj) \<noteq> {}
      \<longrightarrow> set (get_sample_ids con fc_id sample_prj)
            = set (get_sample_ids con fc_id None) \<inter> set (get_sample_ids con None sample_prj)"
    using both by (simp split: if_splits)
  have union: "set (get_sample_ids con fc_id None) = {} \<or> set (get_sample_ids con None sample_prj) = {}
      \<longrightarrow> set (get_sample_ids con fc_id sample_prj)
            = set (get_sample_ids con fc_id None) \<union> set (get_sample_ids con None sample_prj)"
    using both by (simp split: if_splits)
  have neither: "get_sample_ids con None None = []"
    by (simp add: get_sample_ids_def truthy_str_def)
  show ?thesis
    using inter union neither get_sample_ids_flowcell_only [of con fc_id]
      get_sample_ids_project_only [of con sample_prj]
    by blast
qed

theorem get_sample_ids_filters_witness:
  "set (get_sample_ids example_s_con (Some ''FC1'') None) \<noteq> {}
   \<and> set (get_sample_ids example_s_con None (Some ''P1'')) \<noteq> {}
   \<and> set (get_sample_ids example_s_con (Some ''FC1'') (Some ''P1''))
       = set (get_sample_ids example_s_con (Some ''FC1'') None)
         \<inter> set (get_sample_ids example_s_con None (Some ''P1''))
   \<and> set (get_sample_ids example_s_con None (Some ''P2'')) = {}
   \<and> set (get_sample_ids example_s_con (Some ''FC1'') (Some ''P2''))
       = set (get_sample_ids example_s_con (Some ''FC1'') None)
         \<union> set (get_sample_ids example_s_con None (Some ''P2''))"
proof -
  have f: "set (get_sample_ids example_s_con (Some ''FC1'') None) \<noteq> {}"
    by code_simp
  have p: "set (get_sample_ids example_s_con None (Some ''P1'')) \<noteq> {}"
    by code_simp
  have q: "set (get_sample_ids example_s_con None (Some ''P2'')) = {}"
    by code_simp
  note both = get_sample_ids_filters [of example_s_con "Some ''FC1''" "Some ''P1''"]
  note one = get_sample_ids_filters [of example_s_con "Some ''FC1''" "Some ''P2''"]
  have i: "set (get_sample_ids example_s_con (Some ''FC1'') (Some ''P1''))
           = set (get_sample_ids example_s_con (Some ''FC1'') None)
             \<inter> set (get_sample_ids example_s_con None (Some ''P1''))"
    using conjunct1 [OF both] f p by (rule mp [OF _ conjI])
  have u: "set (get_sample_ids example_s_con (Some ''FC1'') (Some ''P2''))
           = set (get_sample_ids example_s_con (Some ''FC1'') None)
             \<union> set (get_sample_ids example_s_con None (Some ''P2''))"
    using conjunct1 [OF conjunct2 [OF one]] disjI2 [OF q] by (rule mp)
  show ?thesis
    by (intro conjI) (rule f p i q u)+
qed

section \<open>The sample reconciler: results\<close>

lemma sample_map_ok_dict_set:
  "sample_map_ok sm \<Longrightarrow> (\<forall>d. v = Some d \<longrightarrow> distinct (map fst d)) \<Longrightarrow> sample_map_ok (dict_set sm k v)"
  unfolding sample_map_ok_def using set_dict_set [of sm k v]
  by (auto simp: distinct_dict_set)

lemma distinct_prune_loop:
  "distinct (map fst ret) \<Longrightarrow> distinct (map fst (prune_loop items ret))"
  by (induction items ret rule: prune_loop.induct) (auto simp: distinct_dict_set)

lemma distinct_prune_ps_map: "prune_ps_map pm = Some d \<Longrightarrow> distinct (map fst d)"
  by (auto simp: prune_ps_map_def distinct_prune_loop split: if_splits option.splits)

lemma distinct_barcode_map:
  "barcode_map k ss acc = Inr bm \<Longrightarrow> distinct (map fst acc) \<Longrightarrow> distinct (map fst bm)"
  by (induction k ss acc rule: barcode_map.induct)
     (auto simp: distinct_dict_set split: option.splits sum.splits if_splits)

lemma use_project_summary_map_ok:
  "use_project_summary_map k v st = Inr st' \<Longrightarrow> sample_map_ok (sample_map st)
   \<Longrightarrow> sample_map_ok (sample_map st')"
  by (auto simp: use_project_summary_map_def sample_map_ok_dict_set distinct_prune_ps_map
           split: if_splits sum.splits)

lemma use_barcode_map_ok:
  "use_barcode_map k srm st = Inr st' \<Longrightarrow> sample_map_ok (sample_map st)
   \<Longrightarrow> sample_map_ok (sample_map st')"
  using distinct_barcode_map [of k srm "[]"]
  by (auto simp: use_barcode_map_def Let_def sample_map_ok_dict_set
           split: if_splits sum.splits)

lemma check_maps_sample_map: "check_maps cc k st = Inr st' \<Longrightarrow> sample_map st' = sample_map st"
  by (auto simp: check_maps_def split: if_splits option.splits)

lemma loop_body_ok:
  assumes "loop_body cc srm k v st = Inr st'" and "sample_map_ok (sample_map st)"
  shows "sample_map_ok (sample_map st')"
proof -
  let ?st1 = "st\<lparr>sample_map := dict_set (sample_map st) k None\<rparr>"
  let ?st2 = "if cc then ?st1\<lparr>use_ps_map := True, use_bc_map := True\<rparr> else ?st1"
  have ok2: "sample_map_ok (sample_map ?st2)"
    using assms(2) by (simp add: sample_map_ok_dict_set)
  from assms(1) obtain st3 st4 where
    s3: "use_project_summary_map k v ?st2 = Inr st3" and
    s4: "use_barcode_map k srm st3 = Inr st4" and
    s5: "check_maps cc k st4 = Inr st'"
    unfolding loop_body_def Let_def by (auto split: sum.splits)
  show ?thesis
    using use_barcode_map_ok [OF s4 use_project_summary_map_ok [OF s3 ok2]]
      check_maps_sample_map [OF s5] by simp
qed

lemma samples_loop_ok:
  "samples_loop cc srm items st = Inr st' \<Longrightarrow> sample_map_ok (sample_map st)
   \<Longrightarrow> sample_map_ok (sample_map st')"
proof (induction items arbitrary: st)
  case Nil
  then show ?case by simp
next
  case (Cons kv items)
  obtain k v where kv: "kv = (k, v)" by (cases kv)
  from Cons.prems(1) obtain st1 where
    b: "loop_body cc srm k v st = Inr st1" and r: "samples_loop cc srm items st1 = Inr st'"
    unfolding kv by (auto split: sum.splits)
  show ?case
    using Cons.IH [OF r loop_body_ok [OF b Cons.prems(2)]] .
qed

lemma map_name_to_srm_ok:
  assumes "map_name_to_srm con project_id fc_id use_ps use_bc cc = Inr (Some sm, lg)"
  shows "sample_map_ok sm"
proof -
  have init: "sample_map_ok []" by (simp add: sample_map_ok_def)
  from assms show ?thesis
    unfolding map_name_to_srm_def Let_def
    by (auto split: prod.splits option.splits sum.splits
             dest!: samples_loop_ok simp: init)
qed

lemma srm_to_name_loop_append:
  "srm_to_name_loop ia (a @ b) acc = srm_to_name_loop ia b (srm_to_name_loop ia a acc)"
  by (induction ia a acc rule: srm_to_name_loop.induct) auto

lemma srm_to_name_loop_other:
  assumes "\<forall>kv \<in> set post.
             (\<forall>d. snd kv = Some d \<longrightarrow> map_of d x = None)
             \<and> (\<not> truthy_dict (snd kv) \<longrightarrow> x \<noteq> ''NOSRM_'' @ fst kv)"
  shows "map_of (srm_to_name_loop ia post acc) x = map_of acc x"
  using assms
proof (induction ia post acc rule: srm_to_name_loop.induct)
  case (1 ia acc)
  then show ?case by simp
next
  case (2 ia k v items acc)
  show ?case
  proof (cases "truthy_dict v")
    case False
    with 2 show ?thesis by (simp add: map_of_dict_set)
  next
    case True
    then obtain d where d: "v = Some d" by (auto simp: truthy_dict_def split: option.splits)
    with 2 have "map_of d x = None" by simp
    then have "x \<notin> fst ` set (map (\<lambda>xy. (fst xy, (k, Some (snd xy)))) d)"
      by (force simp: map_of_eq_None_iff)
    with 2 True d show ?thesis
      by (simp add: map_of_dict_update_other del: set_map)
  qed
qed

lemma srm_to_name_loop_last:
  assumes "distinct (map fst d)" and "map_of d x = Some y" and "d \<noteq> []"
      and "\<forall>kv \<in> set post.
             (\<forall>d'. snd kv = Some d' \<longrightarrow> map_of d' x = None)
             \<and> (\<not> truthy_dict (snd kv) \<longrightarrow> x \<noteq> ''NOSRM_'' @ fst kv)"
  shows "map_of (srm_to_name_loop ia (pre @ (k, Some d) # post) acc) x = Some (k, Some y)"
proof -
  let ?es = "map (\<lambda>xy. (fst xy, (k, Some (snd xy)))) d"
  have dist: "distinct (map fst ?es)"
    using assms(1) by (simp add: comp_def)
  have ent: "map_of ?es x = Some (k, Some y)"
    using assms(2) by (induction d) (auto split: if_splits)
  have "map_of (dict_update (srm_to_name_loop ia pre acc) ?es) x = Some (k, Some y)"
    using map_of_dict_update_entry [OF dist ent] .
  then show ?thesis
    using assms(3) srm_to_name_loop_other [OF assms(4)]
    by (simp add: srm_to_name_loop_append truthy_dict_def)
qed

lemma srm_to_name_loop_placeholder:
  assumes "\<not> truthy_dict v"
      and "\<forall>kv \<in> set post.
             (\<forall>d'. snd kv = Some d' \<longrightarrow> map_of d' (''NOSRM_'' @ k) = None)
             \<and> (\<not> truthy_dict (snd kv) \<longrightarrow> ''NOSRM_'' @ k \<noteq> ''NOSRM_'' @ fst kv)"
  shows "map_of (srm_to_name_loop True (pre @ (k, v) # post) acc) (''NOSRM_'' @ k) = Some (k, None)"
  using assms(1) srm_to_name_loop_other [OF assms(2)]
  by (simp add: srm_to_name_loop_append map_of_dict_set)

lemma loop_body_check_consistency:
  assumes "get_sample_run_metrics v = Inr pm" and "barcode_map k srm [] = Inr bm"
  shows "\<exists>st'. loop_body True srm k v st = Inr st'
           \<and> map_of (sample_map st') = (map_of (sample_map st))(k \<mapsto> Some bm)
           \<and> set (log st) \<subseteq> set (log st')
           \<and> (if maps_equal pm bm then Debug_consistent k else Warn_inconsistent k pm bm)
               \<in> set (log st')"
  using assms
  by (auto simp: loop_body_def use_project_summary_map_def use_barcode_map_def check_maps_def
        dict_item_def map_of_dict_set Let_def)

lemma samples_loop_check_consistency:
  assumes "\<forall>kv \<in> set items. \<exists>pm bm. get_sample_run_metrics (snd kv) = Inr pm
                                     \<and> barcode_map (fst kv) srm [] = Inr bm"
      and "distinct (map fst items)"
  shows "\<exists>st'. samples_loop True srm items st = Inr st'
           \<and> set (log st) \<subseteq> set (log st')
           \<and> (\<forall>k. k \<notin> fst ` set items \<longrightarrow> map_of (sample_map st') k = map_of (sample_map st) k)
           \<and> (\<forall>kv \<in> set items. \<forall>pm bm.
                 get_sample_run_metrics (snd kv) = Inr pm \<longrightarrow> barcode_map (fst kv) srm [] = Inr bm
                 \<longrightarrow> map_of (sample_map st') (fst kv) = Some (Some bm)
                     \<and> (if maps_equal pm bm then Debug_consistent (fst kv)
                         else Warn_inconsistent (fst kv) pm bm) \<in> set (log st'))"
  using assms
proof (induction items arbitrary: st)
  case Nil
  then show ?case by simp
next
  case (Cons kv items)
  obtain k v where kv: "kv = (k, v)" by (cases kv)
  from Cons.prems(1) obtain pm bm where
    pm: "get_sample_run_metrics v = Inr pm" and bm: "barcode_map k srm [] = Inr bm"
    unfolding kv by auto
  from loop_body_check_consistency [OF pm bm, of st] obtain st1 where
    b: "loop_body True srm k v st = Inr st1" and
    m1: "map_of (sample_map st1) = (map_of (sample_map st))(k \<mapsto> Some bm)" and
    l1: "set (log st) \<subseteq> set (log st1)" and
    e1: "(if maps_equal pm bm then Debug_consistent k else Warn_inconsistent k pm bm)
           \<in> set (log st1)"
    by blast
  have rest: "\<forall>kv \<in> set items. \<exists>pm bm. get_sample_run_metrics (snd kv) = Inr pm
                                     \<and> barcode_map (fst kv) srm [] = Inr bm"
    using Cons.prems(1) by simp
  have dist: "distinct (map fst items)" and fresh: "k \<notin> fst ` set items"
    using Cons.prems(2) unfolding kv by auto
  from Cons.IH [OF rest dist, of st1] obtain st' where
    r: "samples_loop True srm items st1 = Inr st'" and
    l2: "set (log st1) \<subseteq> set (log st')" and
    o2: "\<forall>k. k \<notin> fst ` set items \<longrightarrow> map_of (sample_map st') k = map_of (sample_map st1) k" and
    i2: "\<forall>kv \<in> set items. \<forall>pm bm.
           get_sample_run_metrics (snd kv) = Inr pm \<longrightarrow> barcode_map (fst kv) srm [] = Inr bm
           \<longrightarrow> map_of (sample_map st') (fst kv) = Some (Some bm)
               \<and> (if maps_equal pm bm then Debug_consistent (fst kv)
                   else Warn_inconsistent (fst kv) pm bm) \<in> set (log st')"
    by blast
  have run: "samples_loop True srm (kv # items) st = Inr st'"
    unfolding kv using b r by simp
  have logs: "set (log st) \<subseteq> set (log st')"
    using l1 l2 by blast
  have others: "\<forall>k'. k' \<notin> fst ` set (kv # items)
                  \<longrightarrow> map_of (sample_map st') k' = map_of (sample_map st) k'"
    using o2 m1 unfolding kv by simp
  have head: "map_of (sample_map st') k = Some (Some bm)
              \<and> (if maps_equal pm bm then Debug_consistent k else Warn_inconsistent k pm bm)
                  \<in> set (log st')"
    using o2 fresh m1 e1 l2 by auto
  have all: "\<forall>kv' \<in> set (kv # items). \<forall>pm bm.
           get_sample_run_metrics (snd kv') = Inr pm \<longrightarrow> barcode_map (fst kv') srm [] = Inr bm
           \<longrightarrow> map_of (sample_map st') (fst kv') = Some (Some bm)
               \<and> (if maps_equal pm bm then Debug_consistent (fst kv')
                   else Warn_inconsistent (fst kv') pm bm) \<in> set (log st')"
    using head i2 pm bm unfolding kv by auto
  show ?case
    using run logs others all by blast
qed

text \<open>
  C4, as stated, fails on the code: for a project id that the project view does not
  have, \<^verbatim>\<open>map_name_to_srm\<close> raises nothing and returns \<open>None\<close>.
\<close>

theorem unknown_project_does_not_raise:
  "map_of (project_name_view example_con) ''P404'' = None
   \<and> map_name_to_srm example_con ''P404'' None True False False
       = Inr (None, [Debug_retrieving_entry None ''P404'', Warn_no_field None ''P404''])"
  by code_simp

text \<open>
  C4, amended. For every project id that is not in the project view,
  \<^verbatim>\<open>map_name_to_srm\<close> raises no error: \<^verbatim>\<open>get_entry\<close> logs a warning and returns \<open>None\<close>,
  and \<^verbatim>\<open>map_name_to_srm\<close> returns \<open>None\<close>, whatever the flowcell and the flags.
\<close>

theorem unknown_project_returns_none:
  assumes "map_of (project_name_view con) project_id = None"
  shows "map_name_to_srm con project_id fc_id use_ps use_bc check_consistency
         = Inr (None, [Debug_retrieving_entry None project_id, Warn_no_field None project_id])"
  using assms by (simp add: map_name_to_srm_def get_entry_def)

theorem unknown_project_returns_none_witness:
  "map_of (project_name_view example_con) ''P404'' = None
   \<and> map_name_to_srm example_con ''P404'' (Some ''FC1'') True False True
       = Inr (None, [Debug_retrieving_entry None ''P404'', Warn_no_field None ''P404''])"
proof -
  have h: "map_of (project_name_view example_con) ''P404'' = None"
    by code_simp
  show ?thesis
    using h unknown_project_returns_none [OF h, of "Some ''FC1''" True False True] by simp
qed

text \<open>
  C6, as stated, fails on the code: with \<^verbatim>\<open>check_consistency\<close> the curated map does not
  take precedence. \<^verbatim>\<open>P1_1\<close> has the curated map of \<^verbatim>\<open>1_d_FC_ACGT\<close>, which passes the
  suffix filter, and the output for \<^verbatim>\<open>P1_1\<close> is the map that the matcher gives.
\<close>

theorem check_consistency_drops_curated_map:
  "get_sample_run_metrics
     \<lparr>library_prep = None, sample_run_metrics = Some [(''1_d_FC_ACGT'', ''idA'')]\<rparr>
     = Inr (Some [(''1_d_FC_ACGT'', ''idA'')])
   \<and> prune_ps_map (Some [(''1_d_FC_ACGT'', ''idA'')]) = Some [(''1_d_FC_ACGT'', ''idA'')]
   \<and> map_name_to_srm example_con ''P1'' None True False True
       = Inr (Some [(''P1_1'', Some [(''s1'', ''id1'')]),
                    (''P1_1F'', Some [(''s1'', ''id1'')]),
                    (''NoCoverage1'', Some [])],
              [Debug_retrieving_entry None ''P1'',
               Warn_inconsistent ''P1_1'' (Some [(''1_d_FC_ACGT'', ''idA'')]) [(''s1'', ''id1'')],
               Info_using_barcode_map ''P1_1F'',
               Warn_inconsistent ''P1_1F'' None [(''s1'', ''id1'')],
               Info_using_barcode_map ''NoCoverage1'',
               Warn_inconsistent ''NoCoverage1'' None []])"
  by code_simp

lemma barcode_map_returns:
  assumes "\<forall>s \<in> set ss. \<exists>d b. s = Some d
             \<and> match_project_name_to_barcode_name k (barcode_name d) = Inr b"
  shows "\<exists>bm. barcode_map k ss acc = Inr bm"
  using assms
proof (induction ss arbitrary: acc)
  case Nil
  then show ?case by simp
next
  case (Cons s ss)
  from Cons.prems obtain d b where
    s: "s = Some d" and m: "match_project_name_to_barcode_name k (barcode_name d) = Inr b"
    by auto
  have rest: "\<forall>s \<in> set ss. \<exists>d b. s = Some d
                \<and> match_project_name_to_barcode_name k (barcode_name d) = Inr b"
    using Cons.prems by simp
  show ?case
    using Cons.IH [OF rest] s m by simp
qed

text \<open>
  The matcher's error is the error of \<^verbatim>\<open>map_name_to_srm\<close>: for the declared sample
  \<^verbatim>\<open>NoCoverage1\<close> and a sample run with the barcode name \<^verbatim>\<open>Sample1\<close>, the project sample
  and the run record are read without error, the matcher raises \<open>AttributeError\<close>, and
  no sample map is returned.
\<close>

lemma check_consistency_matcher_error:
  "get_sample_run_metrics \<lparr>library_prep = None, sample_run_metrics = None\<rparr> = Inr None
   \<and> get_samples (s_con example_con_sample1) None (Some ''P3'')
       = [Some \<lparr>srm_name = ''s3'', srm_id = ''id3'', barcode_name = Some ''Sample1''\<rparr>]
   \<and> match_project_name_to_barcode_name ''NoCoverage1'' (Some ''Sample1'') = Inl AttributeError
   \<and> map_name_to_srm example_con_sample1 ''P3'' None True False True = Inl AttributeError"
  by code_simp

text \<open>
  C6, amended. When \<^verbatim>\<open>check_consistency\<close> is requested, and reading the curated map of
  no project sample raises, and every sample run id of the index has its document, and
  the matcher raises on no pair of a project sample name and the barcode name of a
  sample run, \<^verbatim>\<open>map_name_to_srm\<close> returns a sample map whatever the preference flags; for
  every project sample \<open>k\<close> it computes the curated map and the map of the matcher, logs
  a warning with \<open>k\<close> and both maps when they differ (a debug message when they are
  equal), and the output for \<open>k\<close> is the map of the matcher.
\<close>

theorem check_consistency_returns_matcher_map:
  assumes "map_of (project_name_view con) project_id = Some i"
      and "map_of (project_db con) i = Some project"
      and "doc_samples project = Some project_samples"
      and "distinct (map fst project_samples)"
      and "\<forall>kv \<in> set project_samples. \<exists>pm. get_sample_run_metrics (snd kv) = Inr pm"
      and "\<forall>s \<in> set (get_samples (s_con con) fc_id (Some project_id)). \<exists>d. s = Some d"
      and "\<forall>kv \<in> set project_samples.
             \<forall>d. Some d \<in> set (get_samples (s_con con) fc_id (Some project_id))
               \<longrightarrow> (\<exists>b. match_project_name_to_barcode_name (fst kv) (barcode_name d) = Inr b)"
  shows "\<exists>sm lg. map_name_to_srm con project_id fc_id use_ps use_bc True = Inr (Some sm, lg)
           \<and> (\<forall>kv \<in> set project_samples. \<forall>pm bm.
                 get_sample_run_metrics (snd kv) = Inr pm
                 \<longrightarrow> barcode_map (fst kv) (get_samples (s_con con) fc_id (Some project_id)) [] = Inr bm
                 \<longrightarrow> map_of sm (fst kv) = Some (Some bm)
                     \<and> (if maps_equal pm bm then Debug_consistent (fst kv)
                         else Warn_inconsistent (fst kv) pm bm) \<in> set lg)"
proof -
  let ?srm = "get_samples (s_con con) fc_id (Some project_id)"
  let ?st = "\<lparr>sample_map = [], use_ps_map = use_ps, use_bc_map = use_bc, ps_map = None,
              bc_map = None, log = [Debug_retrieving_entry None project_id]\<rparr>"
  have reads: "\<forall>kv \<in> set project_samples.
                 \<exists>pm bm. get_sample_run_metrics (snd kv) = Inr pm
                        \<and> barcode_map (fst kv) ?srm [] = Inr bm"
  proof
    fix kv
    assume kv: "kv \<in> set project_samples"
    from assms(5) kv obtain pm where pm: "get_sample_run_metrics (snd kv) = Inr pm"
      by blast
    have matched: "\<forall>s \<in> set ?srm. \<exists>d b. s = Some d
            \<and> match_project_name_to_barcode_name (fst kv) (barcode_name d) = Inr b"
    proof
      fix s
      assume s: "s \<in> set ?srm"
      from bspec [OF assms(6) s] obtain d where d: "s = Some d" ..
      from s d have "Some d \<in> set ?srm" by simp
      with bspec [OF assms(7) kv] obtain b where
        "match_project_name_to_barcode_name (fst kv) (barcode_name d) = Inr b"
        by blast
      with d show "\<exists>d b. s = Some d
            \<and> match_project_name_to_barcode_name (fst kv) (barcode_name d) = Inr b"
        by blast
    qed
    from barcode_map_returns [OF matched, of "[]"] obtain bm where
      "barcode_map (fst kv) ?srm [] = Inr bm"
      by blast
    with pm show "\<exists>pm bm. get_sample_run_metrics (snd kv) = Inr pm
                         \<and> barcode_map (fst kv) ?srm [] = Inr bm"
      by blast
  qed
  from samples_loop_check_consistency [OF reads assms(4), of ?st] obtain st' where
    r: "samples_loop True ?srm project_samples ?st = Inr st'" and
    a: "\<forall>kv \<in> set project_samples. \<forall>pm bm.
           get_sample_run_metrics (snd kv) = Inr pm \<longrightarrow> barcode_map (fst kv) ?srm [] = Inr bm
           \<longrightarrow> map_of (sample_map st') (fst kv) = Some (Some bm)
               \<and> (if maps_equal pm bm then Debug_consistent (fst kv)
                   else Warn_inconsistent (fst kv) pm bm) \<in> set (log st')"
    by blast
  have "map_name_to_srm con project_id fc_id use_ps use_bc True
        = Inr (Some (sample_map st'), log st')"
    using assms(1-3) r by (simp add: map_name_to_srm_def get_entry_def)
  with a show ?thesis by blast
qed

theorem check_consistency_returns_matcher_map_witness:
  "\<exists>sm lg. map_name_to_srm example_con ''P1'' None False False True = Inr (Some sm, lg)
     \<and> map_of sm ''P1_1'' = Some (Some [(''s1'', ''id1'')])
     \<and> Warn_inconsistent ''P1_1'' (Some [(''1_d_FC_ACGT'', ''idA'')]) [(''s1'', ''id1'')] \<in> set lg"
proof -
  let ?v1 = "\<lparr>library_prep = None, sample_run_metrics = Some [(''1_d_FC_ACGT'', ''idA'')]\<rparr>"
  let ?v2 = "\<lparr>library_prep = None, sample_run_metrics = None\<rparr>"
  let ?ps = "[(''P1_1'', ?v1), (''P1_1F'', ?v2), (''NoCoverage1'', ?v2)]"
  let ?srm = "get_samples (s_con example_con) None (Some ''P1'')"
  let ?d = "\<lparr>srm_name = ''s1'', srm_id = ''id1'', barcode_name = Some ''P1_1_x''\<rparr>"
  have h1: "map_of (project_name_view example_con) ''P1'' = Some ''pid1''"
    by code_simp
  have h2: "map_of (project_db example_con) ''pid1'' = Some \<lparr>doc_samples = Some ?ps\<rparr>"
    by code_simp
  have h3: "doc_samples \<lparr>doc_samples = Some ?ps\<rparr> = Some ?ps"
    by simp
  have h4: "distinct (map fst ?ps)"
    by simp
  have g1: "get_sample_run_metrics ?v1 = Inr (Some [(''1_d_FC_ACGT'', ''idA'')])"
    by code_simp
  have g2: "get_sample_run_metrics ?v2 = Inr None"
    by code_simp
  have srm: "?srm = [Some ?d]"
    by code_simp
  have m1: "match_project_name_to_barcode_name ''P1_1'' (Some ''P1_1_x'') = Inr True"
    by code_simp
  have m2: "match_project_name_to_barcode_name ''P1_1F'' (Some ''P1_1_x'') = Inr True"
    by code_simp
  have m3: "match_project_name_to_barcode_name ''NoCoverage1'' (Some ''P1_1_x'') = Inr False"
    by code_simp
  have b1: "barcode_map ''P1_1'' ?srm [] = Inr [(''s1'', ''id1'')]"
    by code_simp
  have h5: "\<forall>kv \<in> set ?ps. \<exists>pm. get_sample_run_metrics (snd kv) = Inr pm"
    using g1 g2 by simp
  have h6: "\<forall>s \<in> set ?srm. \<exists>d. s = Some d"
    unfolding srm by simp
  have h7: "\<forall>kv \<in> set ?ps. \<forall>d. Some d \<in> set ?srm
              \<longrightarrow> (\<exists>b. match_project_name_to_barcode_name (fst kv) (barcode_name d) = Inr b)"
    unfolding srm by (auto simp: m1 m2 m3)
  have ne: "\<not> maps_equal (Some [(''1_d_FC_ACGT'', ''idA'')]) [(''s1'', ''id1'')]"
    by code_simp
  from check_consistency_returns_matcher_map [OF h1 h2 h3 h4 h5 h6 h7, of False False]
  obtain sm lg where
    r: "map_name_to_srm example_con ''P1'' None False False True = Inr (Some sm, lg)" and
    a: "\<forall>kv \<in> set ?ps. \<forall>pm bm.
          get_sample_run_metrics (snd kv) = Inr pm \<longrightarrow> barcode_map (fst kv) ?srm [] = Inr bm
          \<longrightarrow> map_of sm (fst kv) = Some (Some bm)
              \<and> (if maps_equal pm bm then Debug_consistent (fst kv)
                  else Warn_inconsistent (fst kv) pm bm) \<in> set lg"
    by blast
  have "(''P1_1'', ?v1) \<in> set ?ps" by simp
  from bspec [OF a this] g1 b1 ne
  have "map_of sm ''P1_1'' = Some (Some [(''s1'', ''id1'')])
        \<and> Warn_inconsistent ''P1_1'' (Some [(''1_d_FC_ACGT'', ''idA'')]) [(''s1'', ''id1'')] \<in> set lg"
    by simp
  with r show ?thesis by blast
qed

text \<open>
  C7, as stated, fails on the code: the sample run \<^verbatim>\<open>s1\<close>, with barcode name
  \<^verbatim>\<open>P1_1_x\<close>, is matched to \<^verbatim>\<open>P1_1\<close> and to \<^verbatim>\<open>P1_1F\<close>; \<^verbatim>\<open>map_name_to_srm\<close> has it under
  both, and the output of \<^verbatim>\<open>map_srm_to_name\<close> has one entry for \<^verbatim>\<open>s1\<close>, that of
  \<^verbatim>\<open>P1_1F\<close>.
\<close>

theorem run_identifier_of_two_samples_kept_once:
  "match_project_name_to_barcode_name ''P1_1'' (Some ''P1_1_x'') = Inr True
   \<and> match_project_name_to_barcode_name ''P1_1F'' (Some ''P1_1_x'') = Inr True
   \<and> map_name_to_srm example_con ''P1'' None False True False
       = Inr (Some [(''P1_1'', Some [(''s1'', ''id1'')]),
                    (''P1_1F'', Some [(''s1'', ''id1'')]),
                    (''NoCoverage1'', Some [])],
              [Debug_retrieving_entry None ''P1'', Info_using_barcode_map ''P1_1'',
               Info_using_barcode_map ''P1_1F'', Info_using_barcode_map ''NoCoverage1''])
   \<and> map_srm_to_name example_con ''P1'' True None False True False
       = Inr ([(''s1'', (''P1_1F'', Some ''id1'')),
               (''NOSRM_NoCoverage1'', (''NoCoverage1'', None))],
              [Debug_retrieving_entry None ''P1'', Info_using_barcode_map ''P1_1'',
               Info_using_barcode_map ''P1_1F'', Info_using_barcode_map ''NoCoverage1''])"
  by code_simp

text \<open>
  C7, amended. The output of \<^verbatim>\<open>map_srm_to_name\<close> is keyed by run identifier and holds one
  association for each: when a run identifier \<open>x\<close> is in the map of the sample \<open>k\<close> with
  the id \<open>y\<close>, and no sample iterated after \<open>k\<close> writes the key \<open>x\<close>, the entry of \<open>x\<close> is
  \<open>k\<close> with \<open>y\<close>, whatever the samples iterated before \<open>k\<close> have for \<open>x\<close>.
\<close>

theorem run_identifier_keeps_last_sample:
  assumes "map_name_to_srm con project_id fc_id use_ps use_bc check_consistency
           = Inr (Some (pre @ (k, Some d) # post), lg)"
      and "map_of d x = Some y"
      and "\<forall>kv \<in> set post.
             (\<forall>d'. snd kv = Some d' \<longrightarrow> map_of d' x = None)
             \<and> (\<not> truthy_dict (snd kv) \<longrightarrow> x \<noteq> ''NOSRM_'' @ fst kv)"
  shows "\<exists>out. map_srm_to_name con project_id include_all fc_id use_ps use_bc check_consistency
                 = Inr (out, lg)
               \<and> map_of out x = Some (k, Some y)"
proof -
  have ok: "sample_map_ok (pre @ (k, Some d) # post)"
    using map_name_to_srm_ok [OF assms(1)] .
  then have dist: "distinct (map fst d)"
    by (simp add: sample_map_ok_def)
  have ne: "d \<noteq> []"
    using assms(2) by auto
  show ?thesis
    using assms(1) srm_to_name_loop_last [OF dist assms(2) ne assms(3), of include_all pre k "[]"]
    by (simp add: map_srm_to_name_def)
qed

theorem run_identifier_keeps_last_sample_witness:
  "\<exists>out. map_srm_to_name example_con ''P1'' True None False True False
           = Inr (out, [Debug_retrieving_entry None ''P1'', Info_using_barcode_map ''P1_1'',
                        Info_using_barcode_map ''P1_1F'', Info_using_barcode_map ''NoCoverage1''])
         \<and> map_of out ''s1'' = Some (''P1_1F'', Some ''id1'')"
proof -
  have h1: "map_name_to_srm example_con ''P1'' None False True False
            = Inr (Some ([(''P1_1'', Some [(''s1'', ''id1'')])]
                         @ (''P1_1F'', Some [(''s1'', ''id1'')]) # [(''NoCoverage1'', Some [])]),
                   [Debug_retrieving_entry None ''P1'', Info_using_barcode_map ''P1_1'',
                    Info_using_barcode_map ''P1_1F'', Info_using_barcode_map ''NoCoverage1''])"
    by code_simp
  have h2: "map_of [(''s1'', ''id1'')] ''s1'' = Some ''id1''"
    by simp
  have h3: "\<forall>kv \<in> set [(''NoCoverage1'', Some ([] :: string dict))].
              (\<forall>d'. snd kv = Some d' \<longrightarrow> map_of d' ''s1'' = None)
              \<and> (\<not> truthy_dict (snd kv) \<longrightarrow> ''s1'' \<noteq> ''NOSRM_'' @ fst kv)"
    by simp
  show ?thesis
    using run_identifier_keeps_last_sample [OF h1 h2 h3, of True] .
qed

text \<open>
  C8, as stated, fails on the code: \<^verbatim>\<open>A\<close> has an empty result, and the sample \<^verbatim>\<open>B\<close>,
  iterated after it, has the curated run identifier \<^verbatim>\<open>NOSRM_A\<close>, which passes the suffix
  filter; its entry replaces the placeholder, and the id of \<^verbatim>\<open>NOSRM_A\<close> is not null.
\<close>

theorem placeholder_overwritten_by_later_sample:
  "map_name_to_srm example_con ''P2'' None True False False
     = Inr (Some [(''A'', Some []), (''B'', Some [(''NOSRM_A'', ''id9'')])],
            [Debug_retrieving_entry None ''P2'', Info_using_barcode_map ''A''])
   \<and> map_srm_to_name example_con ''P2'' True None True False False
       = Inr ([(''NOSRM_A'', (''B'', Some ''id9''))],
              [Debug_retrieving_entry None ''P2'', Info_using_barcode_map ''A''])"
  by code_simp

text \<open>
  C8, amended. For every declared sample \<open>k\<close> whose result is empty or \<open>None\<close>, with
  \<^verbatim>\<open>include_all\<close> the output of \<^verbatim>\<open>map_srm_to_name\<close> has the key \<^verbatim>\<open>"NOSRM_" + k\<close> with the
  sample \<open>k\<close> and a null id, provided no sample iterated after \<open>k\<close> has that key as a run
  identifier in its map.
\<close>

theorem unmatched_sample_placeholder:
  assumes "map_name_to_srm con project_id fc_id use_ps use_bc check_consistency
           = Inr (Some (pre @ (k, v) # post), lg)"
      and "\<not> truthy_dict v"
      and "\<forall>kv \<in> set post. \<forall>d. snd kv = Some d \<longrightarrow> map_of d (''NOSRM_'' @ k) = None"
  shows "\<exists>out. map_srm_to_name con project_id True fc_id use_ps use_bc check_consistency
                 = Inr (out, lg)
               \<and> map_of out (''NOSRM_'' @ k) = Some (k, None)"
proof -
  have ok: "sample_map_ok (pre @ (k, v) # post)"
    using map_name_to_srm_ok [OF assms(1)] .
  then have "\<forall>kv \<in> set post. fst kv \<noteq> k"
    by (auto simp: sample_map_ok_def)
  with assms(3) have later:
    "\<forall>kv \<in> set post.
       (\<forall>d'. snd kv = Some d' \<longrightarrow> map_of d' (''NOSRM_'' @ k) = None)
       \<and> (\<not> truthy_dict (snd kv) \<longrightarrow> ''NOSRM_'' @ k \<noteq> ''NOSRM_'' @ fst kv)"
    by auto
  show ?thesis
    using assms(1) srm_to_name_loop_placeholder [OF assms(2) later, of pre "[]"]
    by (simp add: map_srm_to_name_def)
qed

theorem unmatched_sample_placeholder_witness:
  "\<exists>out. map_srm_to_name example_con ''P1'' True None True False False
           = Inr (out, [Debug_retrieving_entry None ''P1'', Info_using_barcode_map ''P1_1F'',
                        Info_using_barcode_map ''NoCoverage1''])
         \<and> map_of out ''NOSRM_NoCoverage1'' = Some (''NoCoverage1'', None)"
proof -
  have h1: "map_name_to_srm example_con ''P1'' None True False False
            = Inr (Some ([(''P1_1'', Some [(''1_d_FC_ACGT'', ''idA'')]),
                          (''P1_1F'', Some [(''s1'', ''id1'')])]
                         @ (''NoCoverage1'', Some []) # []),
                   [Debug_retrieving_entry None ''P1'', Info_using_barcode_map ''P1_1F'',
                    Info_using_barcode_map ''NoCoverage1''])"
    by code_simp
  have h2: "\<not> truthy_dict (Some ([] :: string dict))"
    by (simp add: truthy_dict_def)
  have h3: "\<forall>kv \<in> set ([] :: string dict option dict).
              \<forall>d. snd kv = Some d \<longrightarrow> map_of d (''NOSRM_'' @ ''NoCoverage1'') = None"
    by simp
  show ?thesis
    using unmatched_sample_placeholder [OF h1 h2 h3] by simp
qed

section \<open>The upsert resolver: results\<close>

text \<open>
  C10. Whatever the database, the document and the view name passed, \<^verbatim>\<open>update_fn\<close> raises
  \<open>NameError\<close>: it reads \<^verbatim>\<open>view_name\<close>, which is bound neither in the function nor in the
  module, before any lookup, comparison or return. No call returns a pair.
\<close>

theorem update_fn_raises_name_error:
  "update_fn db obj viewname t_utc = Inl NameError"
  by (simp add: update_fn_def read_name_def update_fn_locals_def module_globals_def)

text \<open>
  C1. The candidate \<open>example_same\<close> has the name of the stored document and is equal to it
  apart from the volatile fields; \<^verbatim>\<open>update_fn\<close> raises \<open>NameError\<close> on it and returns no
  pair. The lines after the failing one, run with the view's name, give no document to
  write and the row of the stored document.
\<close>

theorem update_fn_equal_document_raises:
  "equal example_same example_stored
   \<and> update_fn example_db example_same ''names/id_to_name'' ''t9'' = Inl NameError
   \<and> update_fn_lookup example_db example_same ''names/id_to_name'' ''t9''
       = Inr (None, Some \<lparr>view_key = ''id1'', view_id = ''id1'', view_value = PStr ''s1''\<rparr>)"
  by code_simp

text \<open>
  C9. The candidate \<open>example_changed\<close> has the name of the stored document and another
  lane; \<^verbatim>\<open>update_fn\<close> raises \<open>NameError\<close> on it and returns no pair. The lines after the
  failing one, run with the view's name, give the candidate with the stored creation
  time, id and revision and the new modification time.
\<close>

theorem update_fn_changed_document_raises:
  "\<not> equal example_changed example_stored
   \<and> update_fn example_db example_changed ''names/id_to_name'' ''t9'' = Inl NameError
   \<and> update_fn_lookup example_db example_changed ''names/id_to_name'' ''t9''
       = Inr (Some [(''_id'', PStr ''id1''), (''name'', PStr ''s1''),
                    (''creation_time'', PStr ''t0''), (''lane'', PVal 2),
                    (''modification_time'', PStr ''t9''), (''_rev'', PStr ''1-a'')],
              Some \<lparr>view_key = ''id1'', view_id = ''id1'', view_value = PStr ''s1''\<rparr>)"
  by code_simp

section \<open>The identifier matcher: results\<close>

text \<open>
  C2. The matcher is not total. For the project sample name \<^verbatim>\<open>Sample1\<close> and the run
  name \<^verbatim>\<open>Sample1\<close> the first search finds no digits followed by an underscore, and
  \<^verbatim>\<open>sample_id.group(1)\<close> raises \<open>AttributeError\<close>.
\<close>

theorem matcher_raises_without_digits_underscore:
  "match_project_name_to_barcode_name ''Sample1'' (Some ''Sample1'') = Inl AttributeError"
  by code_simp

text \<open>
  C5, as stated, fails on the code in both directions. \<^verbatim>\<open>rstrip("F")\<close> removes every
  trailing \<^verbatim>\<open>F\<close>, so \<^verbatim>\<open>P1FF\<close> matches \<^verbatim>\<open>P1_x\<close>, which stripping one character does not
  give; and the matcher strips \<^verbatim>\<open>F\<close> and \<^verbatim>\<open>B\<close> only, so \<^verbatim>\<open>P1C\<close> does not match \<^verbatim>\<open>P1_x\<close>.
\<close>

theorem matcher_differs_from_spec_prefix_rule:
  "startswith ''P1FF'' ''P''
   \<and> match_project_name_to_barcode_name ''P1FF'' (Some ''P1_x'') = Inr True
   \<and> \<not> spec_matches_P ''P1FF'' ''P1_x''
   \<and> startswith ''P1C'' ''P''
   \<and> match_project_name_to_barcode_name ''P1C'' (Some ''P1_x'') = Inr False
   \<and> spec_matches_P ''P1C'' ''P1_x''"
  by code_simp

text \<open>
  C5, amended. For a project sample name that starts with \<^verbatim>\<open>P\<close>: the matcher returns
  true when the run identifier starts with the name, or with the name without its
  trailing \<^verbatim>\<open>F\<close>s, or with the name without its trailing \<^verbatim>\<open>B\<close>s; it returns false when the
  run identifier starts neither with the name nor with the name without its trailing
  run of any one of \<^verbatim>\<open>F, B, C, D, E\<close>.
\<close>

theorem matcher_prefix_rule:
  assumes "startswith project_sample_name ''P''"
  shows "(startswith run project_sample_name
            \<or> startswith run (rstrip project_sample_name ''F'')
            \<or> startswith run (rstrip project_sample_name ''B'')
          \<longrightarrow> match_project_name_to_barcode_name project_sample_name (Some run) = Inr True)
       \<and> (\<not> startswith run project_sample_name
            \<and> (\<forall>c \<in> set ''FBCDE''. \<not> startswith run (rstrip project_sample_name [c]))
          \<longrightarrow> match_project_name_to_barcode_name project_sample_name (Some run) = Inr False)"
  using assms by (simp add: match_project_name_to_barcode_name_def py_str_def)

theorem matcher_prefix_rule_witness:
  "startswith ''P100_101B'' ''P''
   \<and> startswith ''P100_101_AACCGG'' (rstrip ''P100_101B'' ''B'')
   \<and> match_project_name_to_barcode_name ''P100_101B'' (Some ''P100_101_AACCGG'') = Inr True
   \<and> startswith ''P123'' ''P''
   \<and> \<not> startswith ''P999_indexN'' ''P123''
   \<and> match_project_name_to_barcode_name ''P123'' (Some ''P999_indexN'') = Inr False"
proof -
  have p1: "startswith ''P100_101B'' ''P''" and p2: "startswith ''P123'' ''P''"
    by (simp_all add: startswith_def)
  have h1: "startswith ''P100_101_AACCGG'' (rstrip ''P100_101B'' ''B'')"
    by (simp add: startswith_def rstrip_def)
  have h2: "\<not> startswith ''P999_indexN'' ''P123''
            \<and> (\<forall>c \<in> set ''FBCDE''. \<not> startswith ''P999_indexN'' (rstrip ''P123'' [c]))"
    by (simp add: startswith_def rstrip_def)
  show ?thesis
    using p1 p2 h1 h2
      matcher_prefix_rule [OF p1, of "''P100_101_AACCGG''"]
      matcher_prefix_rule [OF p2, of "''P999_indexN''"]
    by blast
qed

end
